theory Spec2Isabelle
  imports Main "HOL-Library.Word"
begin

section \<open>Values, errors and formatting\<close>

text \<open>
  The repository holds two variants of one Go program. \<^verbatim>\<open>src/main.go\<close> keeps the
  observed maxima in a hash map and has a \<^verbatim>\<open>-dry-run\<close> flag; \<^verbatim>\<open>src/unnamed/part_000\<close>
  keeps a slice of \<^verbatim>\<open>tableInfo\<close> and has a \<^verbatim>\<open>-mode\<close> flag (compare or rebase). The
  functions \<^verbatim>\<open>getTablesInSchema\<close> and \<^verbatim>\<open>getMaxRowID\<close> are the same text in both files.
  Go's \<^verbatim>\<open>int64\<close> is a 64-bit word read as two's complement; its \<^verbatim>\<open>+\<close> wraps around.
\<close>

type_synonym int64 = "64 word"

text \<open>
  An error value: a \<^verbatim>\<open>*mysql.MySQLError\<close> (its \<^verbatim>\<open>Number\<close> and its rendered text), any other
  error (its text), or an error wrapped by \<^verbatim>\<open>fmt.Errorf("...: %w", err)\<close>.
\<close>

datatype go_error =
    MySQLError nat string
  | OtherError string
  | Wrapped string go_error

text \<open>\<^verbatim>\<open>err.Error()\<close>, which is what \<^verbatim>\<open>%v\<close> prints.\<close>

fun Error :: "go_error \<Rightarrow> string" where
  "Error (MySQLError number msg) = msg"
| "Error (OtherError msg) = msg"
| "Error (Wrapped prefix err) = prefix @ Error err"

text \<open>
  \<^verbatim>\<open>var unknownColumnError = &mysql.MySQLError{Number: 1054}\<close> and the driver's method
  \<^verbatim>\<open>unknownColumnError.Is(err)\<close>: true when \<^verbatim>\<open>err\<close> itself is a \<^verbatim>\<open>*MySQLError\<close> with the same
  number. The source calls the method, not \<^verbatim>\<open>errors.Is\<close>, so a wrapped error is not unwrapped.
\<close>

definition unknownColumnError :: nat where
  "unknownColumnError = 1054"

fun unknownColumnError_Is :: "go_error option \<Rightarrow> bool" where
  "unknownColumnError_Is (Some (MySQLError number msg)) = (number = unknownColumnError)"
| "unknownColumnError_Is err = False"

text \<open>The apostrophe of the format strings, and decimal printing (\<^verbatim>\<open>%d\<close>).\<close>

definition sq :: string where
  "sq = [CHR 0x27]"

definition digit :: "nat \<Rightarrow> char" where
  "digit d = ''0123456789'' ! d"

function show_nat :: "nat \<Rightarrow> string" where
  "show_nat n = (if n < 10 then [digit n] else show_nat (n div 10) @ [digit (n mod 10)])"
  by pat_completeness auto
termination
  by (relation "measure (\<lambda>n. n)") auto

declare show_nat.simps [simp del]

definition show_int :: "int \<Rightarrow> string" where
  "show_int i = (if i < 0 then CHR ''-'' # show_nat (nat (- i)) else show_nat (nat i))"

definition fmt_d :: "int64 \<Rightarrow> string" where
  "fmt_d x = show_int (sint x)"

text \<open>\<^verbatim>\<open>%v\<close> of a \<^verbatim>\<open>[]string\<close>: the elements between brackets, separated by one space.\<close>

fun join_space :: "string list \<Rightarrow> string" where
  "join_space [] = []"
| "join_space [x] = x"
| "join_space (x # y # zs) = x @ '' '' @ join_space (y # zs)"

definition fmt_v :: "string list \<Rightarrow> string" where
  "fmt_v xs = ''['' @ join_space xs @ '']''"

text \<open>\<^verbatim>\<open>strings.Split(s, ",")\<close>: the empty string gives one empty element.\<close>

fun Split :: "string \<Rightarrow> string list" where
  "Split [] = [[]]"
| "Split (c # cs) =
     (if c = CHR '','' then [] # Split cs
      else (case Split cs of [] \<Rightarrow> [[c]] | x # xs \<Rightarrow> (c # x) # xs))"

text \<open>
  \<^verbatim>\<open>strings.ToUpper\<close> on column names. Column names are taken to be ASCII, as those of
  \<^verbatim>\<open>SHOW TABLE ... NEXT_ROW_ID\<close> are: the letters a to z are mapped, every other byte is kept.
\<close>

definition upper_char :: "char \<Rightarrow> char" where
  "upper_char c =
     (case map_of (zip ''abcdefghijklmnopqrstuvwxyz'' ''ABCDEFGHIJKLMNOPQRSTUVWXYZ'') c of
        None \<Rightarrow> c | Some u \<Rightarrow> u)"

definition ToUpper :: "string \<Rightarrow> string" where
  "ToUpper s = map upper_char s"

section \<open>The database collaborator\<close>

text \<open>
  What the program sees of \<^verbatim>\<open>database/sql\<close>. A value of a result row is NULL, an integer or
  text. A destination of type \<^verbatim>\<open>*string\<close> takes text as it is and an integer in decimal; a
  destination of type \<^verbatim>\<open>*int64\<close> takes an integer as it is and text through
  \<^verbatim>\<open>strconv.ParseInt(s, 10, 64)\<close>; NULL converts to neither. The texts of the library's own
  errors are abbreviated.
\<close>

datatype sql_value = SqlNull | SqlInt int64 | SqlText string

definition ParseUint :: "string \<Rightarrow> nat option" where
  "ParseUint s =
     (if s = [] \<or> \<not> list_all (\<lambda>c. c \<in> set ''0123456789'') s then None
      else Some (foldl (\<lambda>a c. 10 * a + (of_char c - 48)) 0 s))"

definition ParseInt :: "string \<Rightarrow> int64 option" where
  "ParseInt s =
     (case s of
        [] \<Rightarrow> None
      | c # cs \<Rightarrow>
          (let neg = (c = CHR ''-'');
               body = (if c = CHR ''+'' \<or> c = CHR ''-'' then cs else s)
           in case ParseUint body of
                None \<Rightarrow> None
              | Some un \<Rightarrow>
                  if neg then (if 2 ^ 63 < un then None else Some (- word_of_nat un))
                  else (if 2 ^ 63 \<le> un then None else Some (word_of_nat un))))"

fun convert_string :: "sql_value \<Rightarrow> go_error + string" where
  "convert_string SqlNull = Inl (OtherError ''converting NULL to string is unsupported'')"
| "convert_string (SqlInt n) = Inr (fmt_d n)"
| "convert_string (SqlText s) = Inr s"

fun convert_int64 :: "sql_value \<Rightarrow> go_error + int64" where
  "convert_int64 SqlNull = Inl (OtherError ''converting NULL to int64 is unsupported'')"
| "convert_int64 (SqlInt n) = Inr n"
| "convert_int64 (SqlText s) =
     (case ParseInt s of
        None \<Rightarrow> Inl (OtherError (''strconv.ParseInt: parsing '' @ s @ '': invalid syntax''))
      | Some n \<Rightarrow> Inr n)"

definition arity_error :: "nat \<Rightarrow> nat \<Rightarrow> go_error" where
  "arity_error ncols ndest =
     OtherError (''sql: expected '' @ show_nat ncols @ '' destination arguments in Scan, not ''
       @ show_nat ndest)"

text \<open>
  A result set (\<^verbatim>\<open>*sql.Rows\<close>): what \<^verbatim>\<open>rows.Columns()\<close> returns, the rows that
  \<^verbatim>\<open>rows.Next()\<close> delivers before it returns false, and what \<^verbatim>\<open>rows.Err()\<close> returns then.
\<close>

record result_set =
  Columns :: "go_error + string list"
  Rows :: "sql_value list list"
  Err :: "go_error option"

text \<open>
  The connection (\<^verbatim>\<open>*sql.DB\<close>): \<^verbatim>\<open>db.Query(query)\<close>, \<^verbatim>\<open>db.QueryRow(query).Scan(&maxID)\<close>
  and \<^verbatim>\<open>db.Exec(query)\<close>, each answered from the statement's text alone. \<^verbatim>\<open>QueryRowScan\<close>
  gives the value that \<^verbatim>\<open>maxID\<close> holds after the call (it was declared zero) and the error
  returned: \<^verbatim>\<open>Row.Scan\<close> returns the error of the query, of the conversion, or, after a
  successful assignment, of closing the result set, so an error can come with a non-zero value.
\<close>

record database =
  Query :: "string \<Rightarrow> go_error + result_set"
  QueryRowScan :: "string \<Rightarrow> int64 \<times> go_error option"
  Exec :: "string \<Rightarrow> go_error option"

text \<open>What a run does, in order: the observable trace.\<close>

datatype event =
    Logged string      \<comment> \<open>one line of \<^verbatim>\<open>log.Printf\<close> / \<^verbatim>\<open>log.Println\<close>, without the time stamp\<close>
  | Printed string     \<comment> \<open>one line on standard output\<close>
  | Usage              \<comment> \<open>\<^verbatim>\<open>flag.Usage()\<close>\<close>
  | Opened string      \<comment> \<open>\<^verbatim>\<open>sql.Open("mysql", dsn)\<close>\<close>
  | Queried string     \<comment> \<open>\<^verbatim>\<open>db.Query\<close> or \<^verbatim>\<open>db.QueryRow\<close> with this text\<close>
  | Executed string    \<comment> \<open>\<^verbatim>\<open>db.Exec\<close> with this text\<close>
  | Closed             \<comment> \<open>the deferred \<^verbatim>\<open>db.Close()\<close>\<close>
  | Exited nat         \<comment> \<open>\<^verbatim>\<open>os.Exit\<close>, as \<^verbatim>\<open>log.Fatalf\<close> calls it\<close>

section \<open>The functions shared by both variants\<close>

text \<open>\<^verbatim>\<open>rows.Scan(&tableName)\<close>: one destination of type \<^verbatim>\<open>*string\<close>.\<close>

fun Scan_tableName :: "sql_value list \<Rightarrow> go_error + string" where
  "Scan_tableName [v] = convert_string v"
| "Scan_tableName row = Inl (arity_error (length row) 1)"

fun scan_table_names :: "string \<Rightarrow> sql_value list list \<Rightarrow> go_error + string list" where
  "scan_table_names schemaName [] = Inr []"
| "scan_table_names schemaName (row # rest) =
     (case Scan_tableName row of
        Inl err \<Rightarrow>
          Inl (Wrapped (''scanning table name for schema '' @ sq @ schemaName @ sq @ '': '') err)
      | Inr tableName \<Rightarrow>
          (case scan_table_names schemaName rest of
             Inl err \<Rightarrow> Inl err
           | Inr tables \<Rightarrow> Inr (tableName # tables)))"

definition show_tables_query :: "string \<Rightarrow> string" where
  "show_tables_query schemaName = ''SHOW TABLES FROM `'' @ schemaName @ ''`''"

definition getTablesInSchema :: "database \<Rightarrow> string \<Rightarrow> event list \<times> (go_error + string list)" where
  "getTablesInSchema db schemaName =
     (let query = show_tables_query schemaName in
      ([Queried query],
       (case Query db query of
          Inl err \<Rightarrow>
            Inl (Wrapped (''querying tables for schema '' @ sq @ schemaName @ sq @ '': '') err)
        | Inr rows \<Rightarrow>
            (case scan_table_names schemaName (Rows rows) of
               Inl err \<Rightarrow> Inl err
             | Inr tables \<Rightarrow>
                 (case Err rows of
                    Some err \<Rightarrow>
                      Inl (Wrapped (''iterating table rows for schema '' @ sq @ schemaName @ sq @ '': '') err)
                  | None \<Rightarrow> Inr tables)))))"

definition max_rowid_query :: "string \<Rightarrow> string \<Rightarrow> string" where
  "max_rowid_query schemaName tableName =
     ''SELECT coalesce(max(_tidb_rowid), 0) FROM `'' @ schemaName @ ''`.`'' @ tableName @ ''`''"

definition getMaxRowID :: "database \<Rightarrow> string \<Rightarrow> string \<Rightarrow> event list \<times> int64 \<times> go_error option" where
  "getMaxRowID db schemaName tableName =
     (let query = max_rowid_query schemaName tableName;
          (maxID, err) = QueryRowScan db query
      in if unknownColumnError_Is err then ([Queried query], 0, None)
         else ([Queried query], maxID, err))"

text \<open>The two log lines of the collection loop.\<close>

definition skip_schema_line :: "string \<Rightarrow> go_error \<Rightarrow> string" where
  "skip_schema_line schema err =
     ''! Error getting tables for schema '' @ schema @ '': '' @ Error err @ ''. Skipping schema.''"

definition skip_table_line :: "string \<Rightarrow> string \<Rightarrow> go_error \<Rightarrow> string" where
  "skip_table_line schema table err =
     ''!    Skipping table '' @ schema @ ''.'' @ table @ '': '' @ Error err @ ''.''"

section \<open>The variant with a mode: \<^verbatim>\<open>src/unnamed/part_000\<close>\<close>

record tableIdentifier =
  Schema :: string
  Table :: string

text \<open>
  \<^verbatim>\<open>tableInfo\<close> has the two fields of \<^verbatim>\<open>tableIdentifier\<close> and the calculated
  \<^verbatim>\<open>AutoInc\<close>.
\<close>

record tableInfo = tableIdentifier +
  AutoInc :: int64

datatype mode = modeCompare | modeRebase

definition mkTableInfo :: "string \<Rightarrow> string \<Rightarrow> int64 \<Rightarrow> tableInfo" where
  "mkTableInfo schema table autoInc = \<lparr>Schema = schema, Table = table, AutoInc = autoInc\<rparr>"

text \<open>
  The inner loop of step 4: \<^verbatim>\<open>tableInfos\<close> is the slice being appended to; the result is the
  trace of the loop and the slice after it.
\<close>

fun collect_tables ::
  "database \<Rightarrow> string \<Rightarrow> string list \<Rightarrow> tableInfo list \<Rightarrow> event list \<times> tableInfo list" where
  "collect_tables db schema [] tableInfos = ([], tableInfos)"
| "collect_tables db schema (table # tables) tableInfos =
     (let (ev, maxID, err) = getMaxRowID db schema table in
      if maxID = 0 then
        (let (evs, infos) = collect_tables db schema tables tableInfos in
         (ev @ (case err of None \<Rightarrow> [] | Some e \<Rightarrow> [Logged (skip_table_line schema table e)]) @ evs,
          infos))
      else
        (let (evs, infos) =
               collect_tables db schema tables (tableInfos @ [mkTableInfo schema table (maxID + 1)])
         in (ev @ evs, infos)))"

text \<open>The outer loop of step 3.\<close>

fun collect_schemas ::
  "database \<Rightarrow> string list \<Rightarrow> tableInfo list \<Rightarrow> event list \<times> tableInfo list" where
  "collect_schemas db [] tableInfos = ([], tableInfos)"
| "collect_schemas db (schema # schemas) tableInfos =
     (let (ev, r) = getTablesInSchema db schema in
      case r of
        Inl err \<Rightarrow>
          (let (evs, infos) = collect_schemas db schemas tableInfos in
           (Logged (''# Processing schema: '' @ schema) # ev
              @ [Logged (skip_schema_line schema err)] @ evs, infos))
      | Inr tables \<Rightarrow>
          (let (evt, infos1) = collect_tables db schema tables tableInfos;
               (evs, infos) = collect_schemas db schemas infos1
           in (Logged (''# Processing schema: '' @ schema) # ev @ evt @ evs, infos)))"

definition rebase_query :: "'a tableInfo_scheme \<Rightarrow> string" where
  "rebase_query t =
     ''ALTER TABLE `'' @ Schema t @ ''`.`'' @ Table t @ ''` AUTO_INCREMENT = '' @ fmt_d (AutoInc t)"

definition rebaseAutoIncrement :: "database \<Rightarrow> tableInfo \<Rightarrow> event list \<times> go_error option" where
  "rebaseAutoIncrement db t =
     (let query = rebase_query t in
      ([Logged (''>>> '' @ query @ '';''), Executed query],
       (case Exec db query of
          Some err \<Rightarrow>
            Some (Wrapped (''rebasing AUTO_INCREMENT for '' @ Schema t @ ''.'' @ Table t @ '': '') err)
        | None \<Rightarrow> None)))"

definition next_row_id_query :: "'a tableInfo_scheme \<Rightarrow> string" where
  "next_row_id_query t = ''SHOW TABLE `'' @ Schema t @ ''`.`'' @ Table t @ ''` NEXT_ROW_ID''"

text \<open>
  The search for the two columns: \<^verbatim>\<open>i\<close> is the index of \<^verbatim>\<open>colName\<close>, the pair holds
  \<^verbatim>\<open>idTypeIndex\<close> and \<^verbatim>\<open>nextIDIndex\<close>, both \<open>-1\<close> at the start; a later column of the same
  name overwrites an earlier one.
\<close>

fun find_columns :: "nat \<Rightarrow> string list \<Rightarrow> int \<times> int \<Rightarrow> int \<times> int" where
  "find_columns i [] found = found"
| "find_columns i (colName # cols) (idTypeIndex, nextIDIndex) =
     find_columns (Suc i) cols
       (if ToUpper colName = ''ID_TYPE'' then (int i, nextIDIndex)
        else if ToUpper colName = ''NEXT_GLOBAL_ROW_ID'' then (idTypeIndex, int i)
        else (idTypeIndex, nextIDIndex))"

text \<open>
  \<^verbatim>\<open>rows.Scan(scanArgs...)\<close>: \<^verbatim>\<open>scanArgs\<close> has one destination per column, a \<^verbatim>\<open>*string\<close> at
  \<^verbatim>\<open>idTypeIndex\<close>, an \<^verbatim>\<open>*int64\<close> at \<^verbatim>\<open>nextIDIndex\<close> and \<^verbatim>\<open>*sql.RawBytes\<close> (which takes
  any value) elsewhere. The pair is what the two destinations hold; they are the same
  destinations for every row. \<^verbatim>\<open>k\<close> is the index of the value being converted.
\<close>

fun scan_columns ::
  "nat \<Rightarrow> nat \<Rightarrow> nat \<Rightarrow> sql_value list \<Rightarrow> string \<times> int64 \<Rightarrow> go_error + (string \<times> int64)" where
  "scan_columns k idTypeIndex nextIDIndex [] dests = Inr dests"
| "scan_columns k idTypeIndex nextIDIndex (v # vs) (idType, nextID) =
     (if k = idTypeIndex then
        (case convert_string v of
           Inl err \<Rightarrow> Inl err
         | Inr s \<Rightarrow> scan_columns (Suc k) idTypeIndex nextIDIndex vs (s, nextID))
      else if k = nextIDIndex then
        (case convert_int64 v of
           Inl err \<Rightarrow> Inl err
         | Inr n \<Rightarrow> scan_columns (Suc k) idTypeIndex nextIDIndex vs (idType, n))
      else scan_columns (Suc k) idTypeIndex nextIDIndex vs (idType, nextID))"

definition Scan_scanArgs ::
  "nat \<Rightarrow> nat \<Rightarrow> nat \<Rightarrow> sql_value list \<Rightarrow> string \<times> int64 \<Rightarrow> go_error + (string \<times> int64)" where
  "Scan_scanArgs ncols idTypeIndex nextIDIndex row dests =
     (if length row \<noteq> ncols then Inl (arity_error (length row) ncols)
      else scan_columns 0 idTypeIndex nextIDIndex row dests)"

definition status_of :: "int64 \<Rightarrow> int64 \<Rightarrow> string" where
  "status_of nextGlobalRowID autoInc =
     (if sint autoInc \<le> sint nextGlobalRowID then ''ok'' else ''ERROR'')"

definition csv_line :: "tableInfo \<Rightarrow> int64 \<Rightarrow> string" where
  "csv_line t nextGlobalRowID =
     Schema t @ '','' @ Table t @ '','' @ fmt_d (AutoInc t) @ '','' @ fmt_d nextGlobalRowID
       @ '','' @ status_of nextGlobalRowID (AutoInc t)"

text \<open>
  The loop over \<^verbatim>\<open>rows.Next()\<close>: the lines printed, and the error of the early return if a
  row does not scan.
\<close>

fun compare_rows ::
  "tableInfo \<Rightarrow> nat \<Rightarrow> nat \<Rightarrow> nat \<Rightarrow> sql_value list list \<Rightarrow> string \<times> int64
     \<Rightarrow> event list \<times> go_error option" where
  "compare_rows t ncols idTypeIndex nextIDIndex [] dests = ([], None)"
| "compare_rows t ncols idTypeIndex nextIDIndex (row # rest) dests =
     (case Scan_scanArgs ncols idTypeIndex nextIDIndex row dests of
        Inl err \<Rightarrow>
          ([], Some (Wrapped (''scanning row for schema '' @ sq @ Schema t @ sq @ '' table '' @ sq
                       @ Table t @ sq @ '': '') err))
      | Inr (idType, nextGlobalRowID) \<Rightarrow>
          (let (evs, err) = compare_rows t ncols idTypeIndex nextIDIndex rest (idType, nextGlobalRowID)
           in if idType \<noteq> ''_TIDB_ROWID'' then (evs, err)
              else (Printed (csv_line t nextGlobalRowID) # evs, err)))"

definition missing_columns_error :: "tableInfo \<Rightarrow> go_error" where
  "missing_columns_error t =
     OtherError (''required columns '' @ sq @ ''ID_TYPE'' @ sq @ '' or '' @ sq @ ''NEXT_GLOBAL_ROW_ID''
       @ sq @ '' not found in output of SHOW TABLE NEXT_ROW_ID for '' @ sq @ Schema t @ ''.''
       @ Table t @ sq)"

definition compareAutoIncrement :: "database \<Rightarrow> tableInfo \<Rightarrow> event list \<times> go_error option" where
  "compareAutoIncrement db t =
     (let query = next_row_id_query t in
      case Query db query of
        Inl err \<Rightarrow>
          ([Queried query],
           Some (Wrapped (''comparing NEXT_ROW_ID for '' @ Schema t @ ''.'' @ Table t @ '': '') err))
      | Inr rows \<Rightarrow>
          (case Columns rows of
             Inl err \<Rightarrow>
               ([Queried query],
                Some (Wrapped (''getting columns for next row id query '' @ sq @ Schema t @ ''.''
                        @ Table t @ sq @ '': '') err))
           | Inr cols \<Rightarrow>
               (let (idTypeIndex, nextIDIndex) = find_columns 0 cols (- 1, - 1) in
                if idTypeIndex = - 1 \<or> nextIDIndex = - 1 then
                  ([Queried query], Some (missing_columns_error t))
                else
                  (let (evs, early) =
                         compare_rows t (length cols) (nat idTypeIndex) (nat nextIDIndex) (Rows rows)
                           ([], 0)
                   in case early of
                        Some err \<Rightarrow> (Queried query # evs, Some err)
                      | None \<Rightarrow>
                          (case Err rows of
                             Some err \<Rightarrow>
                               (Queried query # evs,
                                Some (Wrapped (''iterating next row id results for '' @ sq @ Schema t
                                        @ ''.'' @ Table t @ sq @ '': '') err))
                           | None \<Rightarrow> (Queried query # evs, None))))))"

definition execute_one :: "mode \<Rightarrow> database \<Rightarrow> tableInfo \<Rightarrow> event list" where
  "execute_one m db t =
     (let (ev, err) = (case m of modeRebase \<Rightarrow> rebaseAutoIncrement db t
                               | modeCompare \<Rightarrow> compareAutoIncrement db t)
      in ev @ (case err of
                 None \<Rightarrow> []
               | Some e \<Rightarrow>
                   [Logged (''!    Error executing for '' @ Schema t @ ''.'' @ Table t @ '': ''
                      @ Error e)]))"

text \<open>The loop \<^verbatim>\<open>for _, t := range tableInfos\<close>.\<close>

fun execute_all :: "mode \<Rightarrow> database \<Rightarrow> tableInfo list \<Rightarrow> event list" where
  "execute_all m db [] = []"
| "execute_all m db (t # ts) = execute_one m db t @ execute_all m db ts"

text \<open>The parsed command line of this variant, and \<^verbatim>\<open>main\<close> of \<^verbatim>\<open>part_000\<close>.\<close>

record flags =
  host :: string
  port :: string
  user :: string
  password :: string
  schemaList :: string

record mode_flags = flags +
  modeString :: string

definition dsn_of :: "'a flags_scheme \<Rightarrow> string" where
  "dsn_of f = user f @ '':'' @ password f @ ''@tcp('' @ host f @ '':'' @ port f @ '')/''"

definition run_mode :: "(string \<Rightarrow> go_error + database) \<Rightarrow> mode_flags \<Rightarrow> mode \<Rightarrow> event list" where
  "run_mode sql_Open f m =
     (let schemas = Split (schemaList f);
          dsn = dsn_of f
      in Logged (''# Target Schemas: '' @ fmt_v schemas) # Opened dsn #
         (case sql_Open dsn of
            Inl err \<Rightarrow>
              [Logged (''! Error opening database connection: '' @ Error err), Exited 1]
          | Inr db \<Rightarrow>
              (let (evc, tableInfos) = collect_schemas db schemas [] in
               Logged ''# Database connection successful.'' # evc
                 @ [Logged ''# Finished collecting max row IDs.'', Logged ''# Starting execution...'']
                 @ execute_all m db tableInfos
                 @ [Logged ''# Execution finished.'', Closed])))"

definition main_mode :: "(string \<Rightarrow> go_error + database) \<Rightarrow> mode_flags \<Rightarrow> event list" where
  "main_mode sql_Open f =
     (if modeString f = ''compare'' then
        Printed ''Schema,Table,Expected,Current,Status'' # run_mode sql_Open f modeCompare
      else if modeString f = ''rebase'' then run_mode sql_Open f modeRebase
      else [Usage, Logged (''! Invalid mode specified. Use '' @ sq @ ''compare'' @ sq @ '' or '' @ sq
              @ ''rebase'' @ sq @ ''.''), Exited 1])"

section \<open>The variant with a dry run: \<^verbatim>\<open>src/main.go\<close>\<close>

text \<open>
  \<^verbatim>\<open>maxRowIDs\<close> is a Go map from \<^verbatim>\<open>tableIdentifier\<close> to \<^verbatim>\<open>int64\<close>; storing under a key that
  is present overwrites.
\<close>

type_synonym maxRowIDs = "tableIdentifier \<rightharpoonup> int64"

definition mkTableID :: "string \<Rightarrow> string \<Rightarrow> tableIdentifier" where
  "mkTableID schema table = \<lparr>Schema = schema, Table = table\<rparr>"

fun collect_tables_map ::
  "database \<Rightarrow> string \<Rightarrow> string list \<Rightarrow> maxRowIDs \<Rightarrow> event list \<times> maxRowIDs" where
  "collect_tables_map db schema [] ids = ([], ids)"
| "collect_tables_map db schema (table # tables) ids =
     (let (ev, maxID, err) = getMaxRowID db schema table in
      if maxID = 0 then
        (let (evs, ids') = collect_tables_map db schema tables ids in
         (ev @ (case err of None \<Rightarrow> [] | Some e \<Rightarrow> [Logged (skip_table_line schema table e)]) @ evs,
          ids'))
      else
        (let (evs, ids') =
               collect_tables_map db schema tables (ids(mkTableID schema table \<mapsto> maxID))
         in (ev @ evs, ids')))"

fun collect_schemas_map ::
  "database \<Rightarrow> string list \<Rightarrow> maxRowIDs \<Rightarrow> event list \<times> maxRowIDs" where
  "collect_schemas_map db [] ids = ([], ids)"
| "collect_schemas_map db (schema # schemas) ids =
     (let (ev, r) = getTablesInSchema db schema in
      case r of
        Inl err \<Rightarrow>
          (let (evs, ids') = collect_schemas_map db schemas ids in
           (Logged (''# Processing schema: '' @ schema) # ev
              @ [Logged (skip_schema_line schema err)] @ evs, ids'))
      | Inr tables \<Rightarrow>
          (let (evt, ids1) = collect_tables_map db schema tables ids;
               (evs, ids') = collect_schemas_map db schemas ids1
           in (Logged (''# Processing schema: '' @ schema) # ev @ evt @ evs, ids')))"

text \<open>
  \<^verbatim>\<open>for tableID, maxID := range maxRowIDs\<close> visits every entry of the map once, in an order
  the language leaves unspecified: \<open>entries\<close> is one such order.
\<close>

definition range_order :: "('k \<rightharpoonup> 'v) \<Rightarrow> ('k \<times> 'v) list \<Rightarrow> bool" where
  "range_order m entries \<longleftrightarrow> distinct (map fst entries) \<and> map_of entries = m"

definition alter_query :: "tableIdentifier \<Rightarrow> int64 \<Rightarrow> string" where
  "alter_query tableID maxID =
     (let newAutoIncrement = maxID + 1 in
      ''ALTER TABLE `'' @ Schema tableID @ ''`.`'' @ Table tableID @ ''` AUTO_INCREMENT = ''
        @ fmt_d newAutoIncrement)"

fun update_one :: "database \<Rightarrow> bool \<Rightarrow> tableIdentifier \<times> int64 \<Rightarrow> event list" where
  "update_one db dryRun (tableID, maxID) =
     (let alterQuery = alter_query tableID maxID in
      Logged (''>>> '' @ alterQuery @ '';'') #
      (if \<not> dryRun then
         Executed alterQuery #
         (case Exec db alterQuery of
            Some err \<Rightarrow>
              [Logged (''!    Error updating AUTO_INCREMENT for '' @ Schema tableID @ ''.''
                 @ Table tableID @ '': '' @ Error err)]
          | None \<Rightarrow> [])
       else []))"

fun update_all :: "database \<Rightarrow> bool \<Rightarrow> (tableIdentifier \<times> int64) list \<Rightarrow> event list" where
  "update_all db dryRun [] = []"
| "update_all db dryRun (entry # entries) = update_one db dryRun entry @ update_all db dryRun entries"

record dryrun_flags = flags +
  dryRun :: bool

text \<open>
  \<^verbatim>\<open>main\<close> of \<^verbatim>\<open>main.go\<close>; \<open>order\<close> is the order in which the runtime's \<^verbatim>\<open>range\<close> yields
  the entries of a map.
\<close>

definition main_dryrun ::
  "(string \<Rightarrow> go_error + database) \<Rightarrow> (maxRowIDs \<Rightarrow> (tableIdentifier \<times> int64) list)
     \<Rightarrow> dryrun_flags \<Rightarrow> event list" where
  "main_dryrun sql_Open order f =
     (let schemas = Split (schemaList f);
          dsn = dsn_of f
      in Logged (''# Target Schemas: '' @ fmt_v schemas) # Opened dsn #
         (case sql_Open dsn of
            Inl err \<Rightarrow>
              [Logged (''! Error opening database connection: '' @ Error err), Exited 1]
          | Inr db \<Rightarrow>
              (let (evc, ids) = collect_schemas_map db schemas Map.empty in
               Logged ''# Database connection successful.'' # evc
                 @ [Logged ''# Finished collecting max row IDs.'',
                    Logged ''# Starting AUTO_INCREMENT updates...'']
                 @ update_all db (dryRun f) (order ids)
                 @ [Logged ''# AUTO_INCREMENT update process finished.'', Closed])))"

section \<open>Reading a trace, and connections for the examples\<close>

fun executed :: "event list \<Rightarrow> string list" where
  "executed [] = []"
| "executed (Executed q # evs) = q # executed evs"
| "executed (ev # evs) = executed evs"

fun queried :: "event list \<Rightarrow> string list" where
  "queried [] = []"
| "queried (Queried q # evs) = q # queried evs"
| "queried (ev # evs) = queried evs"

fun printed :: "event list \<Rightarrow> string list" where
  "printed [] = []"
| "printed (Printed l # evs) = l # printed evs"
| "printed (ev # evs) = printed evs"

fun logged :: "event list \<Rightarrow> string list" where
  "logged [] = []"
| "logged (Logged l # evs) = l # logged evs"
| "logged (ev # evs) = logged evs"

text \<open>A connection that gives the same three answers to every statement.\<close>

definition answering ::
  "go_error + result_set \<Rightarrow> int64 \<times> go_error option \<Rightarrow> go_error option \<Rightarrow> database" where
  "answering rows scanned ex =
     \<lparr>Query = (\<lambda>q. rows), QueryRowScan = (\<lambda>q. scanned), Exec = (\<lambda>q. ex)\<rparr>"

definition one_column :: "string \<Rightarrow> string list \<Rightarrow> go_error + result_set" where
  "one_column name cells =
     Inr \<lparr>Columns = Inr [name], Rows = map (\<lambda>c. [SqlText c]) cells, Err = None\<rparr>"

text \<open>The maximum that \<^verbatim>\<open>getMaxRowID\<close> reports for a table: the \<^verbatim>\<open>maxID\<close> of the collection loop.\<close>

definition observed_max :: "database \<Rightarrow> string \<Rightarrow> string \<Rightarrow> int64" where
  "observed_max db schema table = fst (snd (getMaxRowID db schema table))"

text \<open>
  A connection for the examples: the schema \<^verbatim>\<open>shop\<close> has the tables \<^verbatim>\<open>orders\<close> (greatest
  row id 50), \<^verbatim>\<open>users\<close> (no implicit row id: error 1054) and \<^verbatim>\<open>logs\<close> (empty); every other
  schema is unknown; every \<^verbatim>\<open>SHOW TABLE ... NEXT_ROW_ID\<close> gives the rows of the spec's example.
\<close>

definition next_row_id_rows :: result_set where
  "next_row_id_rows =
     \<lparr>Columns = Inr [''DB_NAME'', ''TABLE_NAME'', ''COLUMN_NAME'', ''NEXT_GLOBAL_ROW_ID'', ''ID_TYPE''],
      Rows = [[SqlText ''shop'', SqlText ''orders'', SqlText ''id'', SqlInt 999, SqlText ''OTHER''],
              [SqlText ''shop'', SqlText ''orders'', SqlNull, SqlText ''50'', SqlText ''_TIDB_ROWID'']],
      Err = None\<rparr>"

definition shop_db :: database where
  "shop_db =
     \<lparr>Query = (\<lambda>q. if q = show_tables_query ''shop''
                    then one_column ''Tables_in_shop'' [''orders'', ''users'', ''logs'']
                    else if take 12 q = ''SHOW TABLE `'' then Inr next_row_id_rows
                    else Inl (MySQLError 1049 ''Error 1049 (42000): Unknown database'')),
      QueryRowScan = (\<lambda>q. if q = max_rowid_query ''shop'' ''orders'' then (50, None)
                           else if q = max_rowid_query ''shop'' ''users''
                           then (0, Some (MySQLError 1054 ''Error 1054 (42S22): Unknown column''))
                           else (0, None)),
      Exec = (\<lambda>q. None)\<rparr>"

text \<open>The command line of the examples for \<^verbatim>\<open>main.go\<close>.\<close>

definition shop_flags :: dryrun_flags where
  "shop_flags = \<lparr>host = ''127.0.0.1'', port = ''4000'', user = ''root'', password = '''',
      schemaList = ''shop'', dryRun = True\<rparr>"


section \<open>Evaluation and the loops, as lemmas\<close>

lemma show_nat_small: "n < 10 \<Longrightarrow> show_nat n = [digit n]"
  by (simp add: show_nat.simps)

lemma show_nat_large: "10 \<le> n \<Longrightarrow> show_nat n = show_nat (n div 10) @ [digit (n mod 10)]"
  by (subst show_nat.simps) simp

lemmas show_d = fmt_d_def show_int_def show_nat_small show_nat_large digit_def

lemma executed_append: "executed (xs @ ys) = executed xs @ executed ys"
  by (induction xs rule: executed.induct) auto


lemma printed_append: "printed (xs @ ys) = printed xs @ printed ys"
  by (induction xs rule: printed.induct) auto

lemma logged_append: "logged (xs @ ys) = logged xs @ logged ys"
  by (induction xs rule: logged.induct) auto

lemma getMaxRowID_events:
  "fst (getMaxRowID db schema table) = [Queried (max_rowid_query schema table)]"
  by (simp add: getMaxRowID_def Let_def split: prod.splits)

lemma getTablesInSchema_events:
  "fst (getTablesInSchema db schema) = [Queried (show_tables_query schema)]"
  by (simp add: getTablesInSchema_def Let_def)

lemma collect_tables_acc:
  "collect_tables db schema tables infos =
     (fst (collect_tables db schema tables []), infos @ snd (collect_tables db schema tables []))"
proof (induction tables arbitrary: infos)
  case Nil
  show ?case by simp
next
  case (Cons table tables)
  obtain ev maxID err where g: "getMaxRowID db schema table = (ev, maxID, err)"
    by (cases "getMaxRowID db schema table") auto
  show ?case
  proof (cases "maxID = 0")
    case True
    with g Cons.IH [of infos] show ?thesis
      by (simp add: split_beta)
  next
    case False
    with g Cons.IH [of "infos @ [mkTableInfo schema table (maxID + 1)]"]
      Cons.IH [of "[mkTableInfo schema table (maxID + 1)]"]
    show ?thesis
      by (simp add: split_beta)
  qed
qed

lemma collect_tables_facts:
  "snd (collect_tables db schema tables infos) =
     infos @ map (\<lambda>table. mkTableInfo schema table (observed_max db schema table + 1))
               (filter (\<lambda>table. observed_max db schema table \<noteq> 0) tables)"
proof (induction tables arbitrary: infos)
  case Nil
  show ?case by simp
next
  case (Cons table tables)
  obtain ev maxID err where g: "getMaxRowID db schema table = (ev, maxID, err)"
    by (cases "getMaxRowID db schema table") auto
  then have o: "observed_max db schema table = maxID"
    by (simp add: observed_max_def)
  show ?case
  proof (cases "maxID = 0")
    case True
    with g o Cons.IH [of infos] show ?thesis
      by (simp add: split_beta)
  next
    case False
    with g o Cons.IH [of "infos @ [mkTableInfo schema table (maxID + 1)]"]
    show ?thesis
      by (simp add: split_beta)
  qed
qed


lemma sint_succ: "sint (m :: int64) < 2 ^ 63 - 1 \<Longrightarrow> sint (m + 1) = sint m + 1"
proof -
  assume a: "sint m < 2 ^ 63 - 1"
  have b: "- (2 ^ 63) \<le> sint m"
    using sint_ge [of m] by simp
  have "sint (m + 1) = signed_take_bit 63 (sint m + 1)"
    by (simp add: sint_word_ariths)
  also have "\<dots> = sint m + 1"
    using a b by (simp add: signed_take_bit_int_eq_self)
  finally show ?thesis .
qed




lemma compare_rows_executed: "executed (fst (compare_rows t n i j rows d)) = []"
  by (induction rows arbitrary: d) (auto simp: split_beta split: sum.splits)


lemma executed_compare: "executed (execute_one modeCompare db t) = []"
  by (simp add: execute_one_def compareAutoIncrement_def Let_def split_beta executed_append compare_rows_executed
      split: option.splits sum.splits)


lemma executed_update_one:
  "executed (update_one db dry entry) = (if dry then [] else [alter_query (fst entry) (snd entry)])"
  by (cases entry) (simp add: Let_def split: option.splits)

lemma executed_update_all:
  "executed (update_all db dry entries) =
     (if dry then [] else map (\<lambda>entry. alter_query (fst entry) (snd entry)) entries)"
  by (induction entries) (simp_all add: executed_append executed_update_one)

lemma shop_observed:
  "observed_max shop_db ''shop'' ''orders'' = 50"
  "observed_max shop_db ''shop'' ''users'' = 0"
  "observed_max shop_db ''shop'' ''logs'' = 0"
  by (simp_all add: observed_max_def getMaxRowID_def shop_db_def max_rowid_query_def unknownColumnError_def)

lemma collect_tables_map_executed: "executed (fst (collect_tables_map db schema tables ids)) = []"
proof (induction tables arbitrary: ids)
  case Nil
  show ?case by simp
next
  case (Cons table tables)
  obtain ev maxID err where g: "getMaxRowID db schema table = (ev, maxID, err)"
    by (cases "getMaxRowID db schema table") auto
  with getMaxRowID_events [of db schema table] have "executed ev = []"
    by simp
  with g Cons.IH show ?case
    by (simp add: split_beta executed_append split: option.splits)
qed

lemma collect_schemas_map_executed: "executed (fst (collect_schemas_map db schemas ids)) = []"
proof (induction schemas arbitrary: ids)
  case Nil
  show ?case by simp
next
  case (Cons schema schemas)
  obtain ev r where g: "getTablesInSchema db schema = (ev, r)"
    by (cases "getTablesInSchema db schema") auto
  with getTablesInSchema_events [of db schema] have "executed ev = []"
    by simp
  with g Cons.IH show ?case
    by (simp add: split_beta executed_append collect_tables_map_executed split: sum.splits)
qed

lemma update_all_dry:
  "update_all db True entries =
     map (\<lambda>entry. Logged (''>>> '' @ alter_query (fst entry) (snd entry) @ '';'')) entries"
  by (induction entries) (auto simp: Let_def)

lemma shop_tables:
  "getTablesInSchema shop_db ''shop'' =
     ([Queried ''SHOW TABLES FROM `shop`''], Inr [''orders'', ''users'', ''logs''])"
  by (simp add: getTablesInSchema_def shop_db_def show_tables_query_def one_column_def)

lemma shop_max:
  "getMaxRowID shop_db ''shop'' ''orders'' = ([Queried (max_rowid_query ''shop'' ''orders'')], 50, None)"
  "getMaxRowID shop_db ''shop'' ''users'' = ([Queried (max_rowid_query ''shop'' ''users'')], 0, None)"
  "getMaxRowID shop_db ''shop'' ''logs'' = ([Queried (max_rowid_query ''shop'' ''logs'')], 0, None)"
  by (simp_all add: getMaxRowID_def shop_db_def max_rowid_query_def unknownColumnError_def)

lemma collect_schemas_acc:
  "collect_schemas db schemas infos =
     (fst (collect_schemas db schemas []), infos @ snd (collect_schemas db schemas []))"
proof (induction schemas arbitrary: infos)
  case Nil
  show ?case by simp
next
  case (Cons schema schemas)
  obtain ev r where g: "getTablesInSchema db schema = (ev, r)"
    by (cases "getTablesInSchema db schema") auto
  show ?case
  proof (cases r)
    case (Inl err)
    with g Cons.IH [of infos] show ?thesis
      by (simp add: split_beta)
  next
    case (Inr tables)
    with g Cons.IH [of "snd (collect_tables db schema tables infos)"]
      Cons.IH [of "snd (collect_tables db schema tables [])"]
      collect_tables_acc [of db schema tables infos]
    show ?thesis
      by (simp add: split_beta)
  qed
qed

lemma collect_schemas_append:
  "collect_schemas db (xs @ ys) infos =
     (fst (collect_schemas db xs []) @ fst (collect_schemas db ys []),
      infos @ snd (collect_schemas db xs []) @ snd (collect_schemas db ys []))"
proof (induction xs arbitrary: infos)
  case Nil
  show ?case using collect_schemas_acc [of db ys infos] by simp
next
  case (Cons schema schemas)
  obtain ev r where g: "getTablesInSchema db schema = (ev, r)"
    by (cases "getTablesInSchema db schema") auto
  show ?case
  proof (cases r)
    case (Inl err)
    with g Cons.IH [of infos] Cons.IH [of "[]"] collect_schemas_acc [of db schemas infos]
    show ?thesis
      by (simp add: split_beta)
  next
    case (Inr tables)
    with g Cons.IH [of "snd (collect_tables db schema tables infos)"]
      collect_schemas_acc [of db schemas "snd (collect_tables db schema tables [])"]
      collect_tables_acc [of db schema tables infos]
    show ?thesis
      by (simp add: split_beta)
  qed
qed

lemma collect_schemas_failed:
  "snd (getTablesInSchema db x) = Inl err \<Longrightarrow>
   collect_schemas db [x] [] =
     ([Logged (''# Processing schema: '' @ x), Queried (show_tables_query x),
       Logged (skip_schema_line x err)], [])"
  using getTablesInSchema_events [of db x]
  by (cases "getTablesInSchema db x") simp

lemma collect_schemas_map_append:
  "collect_schemas_map db (xs @ ys) ids =
     (fst (collect_schemas_map db xs ids)
        @ fst (collect_schemas_map db ys (snd (collect_schemas_map db xs ids))),
      snd (collect_schemas_map db ys (snd (collect_schemas_map db xs ids))))"
proof (induction xs arbitrary: ids)
  case Nil
  show ?case by simp
next
  case (Cons schema schemas)
  obtain ev r where g: "getTablesInSchema db schema = (ev, r)"
    by (cases "getTablesInSchema db schema") auto
  show ?case
  proof (cases r)
    case (Inl err)
    with g Cons.IH [of ids] show ?thesis
      by (simp add: split_beta)
  next
    case (Inr tables)
    with g Cons.IH [of "snd (collect_tables_map db schema tables ids)"]
    show ?thesis
      by (simp add: split_beta)
  qed
qed

lemma collect_schemas_map_failed:
  "snd (getTablesInSchema db x) = Inl err \<Longrightarrow>
   collect_schemas_map db [x] ids =
     ([Logged (''# Processing schema: '' @ x), Queried (show_tables_query x),
       Logged (skip_schema_line x err)], ids)"
  using getTablesInSchema_events [of db x]
  by (cases "getTablesInSchema db x") simp

lemma execute_all_append: "execute_all m db (ts @ us) = execute_all m db ts @ execute_all m db us"
  by (induction ts) simp_all

lemma update_all_append:
  "update_all db dry (es @ fs) = update_all db dry es @ update_all db dry fs"
  by (induction es) simp_all

lemma shop_unknown:
  "getTablesInSchema shop_db ''nosuch'' =
     ([Queried ''SHOW TABLES FROM `nosuch`''],
      Inl (Wrapped (''querying tables for schema '' @ sq @ ''nosuch'' @ sq @ '': '')
             (MySQLError 1049 ''Error 1049 (42000): Unknown database'')))"
  by (simp add: getTablesInSchema_def shop_db_def show_tables_query_def)






section \<open>The claims\<close>

text \<open>
  C8. In \<^verbatim>\<open>part_000\<close>, when the mode argument is neither \<^verbatim>\<open>compare\<close> nor \<^verbatim>\<open>rebase\<close> (the
  empty string of a missing flag included), the run is the usage message, the fatal log
  line and the exit with status 1: \<^verbatim>\<open>sql.Open\<close> is never reached, and no query and no
  statement is issued.
\<close>

theorem invalid_mode_is_fatal:
  "modeString f \<noteq> ''compare'' \<Longrightarrow> modeString f \<noteq> ''rebase'' \<Longrightarrow>
   main_mode sql_Open f =
     [Usage,
      Logged (''! Invalid mode specified. Use '' @ sq @ ''compare'' @ sq @ '' or '' @ sq
        @ ''rebase'' @ sq @ ''.''),
      Exited 1]
   \<and> (\<forall>dsn. Opened dsn \<notin> set (main_mode sql_Open f))
   \<and> queried (main_mode sql_Open f) = [] \<and> executed (main_mode sql_Open f) = []"
  by (simp add: main_mode_def)

theorem invalid_mode_witness:
  "modeString \<lparr>host = ''127.0.0.1'', port = ''4000'', user = ''root'', password = '''',
      schemaList = ''db1'', modeString = ''''\<rparr> \<noteq> ''compare''
   \<and> main_mode (\<lambda>dsn. Inr (answering (one_column ''Tables_in_db1'' [''t'']) (7, None) None))
       \<lparr>host = ''127.0.0.1'', port = ''4000'', user = ''root'', password = '''',
        schemaList = ''db1'', modeString = ''''\<rparr> =
     [Usage,
      Logged (''! Invalid mode specified. Use '' @ sq @ ''compare'' @ sq @ '' or '' @ sq
        @ ''rebase'' @ sq @ ''.''),
      Exited 1]"
  using invalid_mode_is_fatal
    [of "\<lparr>host = ''127.0.0.1'', port = ''4000'', user = ''root'', password = '''',
          schemaList = ''db1'', modeString = ''''\<rparr>"
        "\<lambda>dsn. Inr (answering (one_column ''Tables_in_db1'' [''t'']) (7, None) None)"]
  by simp

text \<open>
  C5. The statements are built by putting the names between backticks as they are; a
  backtick inside a name is not doubled. The statement generated for the table named
  \<^verbatim>\<open>b` AUTO_INCREMENT = 1 -- x\<close> of schema \<^verbatim>\<open>a\<close> is the statement for the table \<^verbatim>\<open>b\<close> of
  \<^verbatim>\<open>a\<close> followed by an SQL comment (in both variants), and two different pairs of names
  give one and the same text: the statement does not target exactly the named table.
\<close>

theorem backtick_breaks_quoting:
  "rebase_query (mkTableInfo ''a'' ''b` AUTO_INCREMENT = 1 -- x'' 8) =
     rebase_query (mkTableInfo ''a'' ''b'' 1) @ '' -- x` AUTO_INCREMENT = 8''
   \<and> alter_query (mkTableID ''a'' ''b` AUTO_INCREMENT = 1 -- x'') 7 =
     alter_query (mkTableID ''a'' ''b'') 0 @ '' -- x` AUTO_INCREMENT = 8''
   \<and> max_rowid_query ''a`.`b'' ''c'' = max_rowid_query ''a'' ''b`.`c''
   \<and> next_row_id_query (mkTableInfo ''a`.`b'' ''c'' 8) =
     next_row_id_query (mkTableInfo ''a'' ''b`.`c'' 8)
   \<and> show_tables_query ''a` LIKE `b'' = ''SHOW TABLES FROM `a` LIKE `b`''"
  by (simp add: rebase_query_def alter_query_def mkTableInfo_def mkTableID_def
      max_rowid_query_def next_row_id_query_def show_tables_query_def show_d)




text \<open>
  C1 (as amended). For a table whose observed maximum row id \<open>m\<close> satisfies
  \<open>0 < m < 2\<^sup>6\<^sup>3 - 1\<close>, the collection loop records a fact whose \<^verbatim>\<open>AutoInc\<close> is \<open>m + 1\<close>,
  and the rebase statement of either variant carries \<open>m + 1\<close> in decimal. At
  \<open>m = 2\<^sup>6\<^sup>3 - 1\<close> the \<^verbatim>\<open>int64\<close> addition wraps to \<open>- 2\<^sup>6\<^sup>3\<close>.
\<close>

theorem proposed_is_successor:
  assumes "0 < sint (observed_max db schema table)"
    and "sint (observed_max db schema table) < 2 ^ 63 - 1"
  shows "\<exists>a. snd (collect_tables db schema [table] infos) = infos @ [mkTableInfo schema table a]
           \<and> sint a = sint (observed_max db schema table) + 1
           \<and> rebase_query (mkTableInfo schema table a) =
               ''ALTER TABLE `'' @ schema @ ''`.`'' @ table @ ''` AUTO_INCREMENT = ''
                 @ show_nat (nat (sint (observed_max db schema table) + 1))
           \<and> alter_query (mkTableID schema table) (observed_max db schema table) =
               rebase_query (mkTableInfo schema table a)"
proof -
  let ?m = "observed_max db schema table"
  have nz: "?m \<noteq> 0"
    using assms(1) by auto
  have s: "sint (?m + 1) = sint ?m + 1"
    using assms(2) by (rule sint_succ)
  have "snd (collect_tables db schema [table] infos) = infos @ [mkTableInfo schema table (?m + 1)]"
    using nz by (simp add: collect_tables_facts del: collect_tables.simps)
  moreover have "rebase_query (mkTableInfo schema table (?m + 1)) =
      ''ALTER TABLE `'' @ schema @ ''`.`'' @ table @ ''` AUTO_INCREMENT = '' @ show_nat (nat (sint ?m + 1))"
    using assms(1) s by (simp add: rebase_query_def mkTableInfo_def fmt_d_def show_int_def)
  moreover have "alter_query (mkTableID schema table) ?m = rebase_query (mkTableInfo schema table (?m + 1))"
    by (simp add: alter_query_def rebase_query_def mkTableInfo_def mkTableID_def)
  ultimately show ?thesis
    using s by blast
qed

theorem proposed_is_successor_witness:
  "0 < sint (observed_max shop_db ''shop'' ''orders'')
   \<and> (\<exists>a. snd (collect_tables shop_db ''shop'' [''orders''] []) = [mkTableInfo ''shop'' ''orders'' a]
           \<and> sint a = 51
           \<and> rebase_query (mkTableInfo ''shop'' ''orders'' a) =
               ''ALTER TABLE `shop`.`orders` AUTO_INCREMENT = 51'')"
  using proposed_is_successor [of shop_db "''shop''" "''orders''" "[]"]
  by (auto simp: shop_observed show_d simp del: collect_tables.simps)

theorem proposed_wraps_counterexample:
  "0 < sint (observed_max (answering (one_column ''Tables_in_shop'' [''orders''])
               (9223372036854775807, None) None) ''shop'' ''orders'')
   \<and> snd (collect_tables (answering (one_column ''Tables_in_shop'' [''orders''])
               (9223372036854775807, None) None) ''shop'' [''orders''] []) =
       [mkTableInfo ''shop'' ''orders'' (9223372036854775807 + 1)]
   \<and> sint (9223372036854775807 + 1 :: int64) = - 9223372036854775808
   \<and> sint (9223372036854775807 + 1 :: int64) \<noteq> sint (9223372036854775807 :: int64) + 1
   \<and> rebase_query (mkTableInfo ''shop'' ''orders'' (9223372036854775807 + 1)) =
       ''ALTER TABLE `shop`.`orders` AUTO_INCREMENT = -9223372036854775808''"
  by (simp add: getMaxRowID_def answering_def observed_max_def rebase_query_def mkTableInfo_def show_d)




text \<open>
  C9. In \<^verbatim>\<open>main.go\<close> with \<^verbatim>\<open>-dry-run\<close> set, no statement is ever passed to
  \<^verbatim>\<open>db.Exec\<close>, whatever the connection answers and in whatever order the map is ranged
  over; the action phase is exactly one log line \<^verbatim>\<open>>>> statement;\<close> per entry, and the
  statement in it is the text that the run without \<^verbatim>\<open>-dry-run\<close> passes to \<^verbatim>\<open>db.Exec\<close> for
  that entry.
\<close>

theorem dry_run_executes_nothing:
  assumes "dryRun f"
  shows "executed (main_dryrun sql_Open order f) = []
    \<and> update_all db True entries =
        map (\<lambda>entry. Logged (''>>> '' @ alter_query (fst entry) (snd entry) @ '';'')) entries
    \<and> executed (update_all db False entries) =
        map (\<lambda>entry. alter_query (fst entry) (snd entry)) entries
    \<and> (sql_Open (dsn_of f) = Inr db \<longrightarrow>
        main_dryrun sql_Open order f =
          [Logged (''# Target Schemas: '' @ fmt_v (Split (schemaList f))), Opened (dsn_of f),
           Logged ''# Database connection successful.'']
          @ fst (collect_schemas_map db (Split (schemaList f)) Map.empty)
          @ [Logged ''# Finished collecting max row IDs.'',
             Logged ''# Starting AUTO_INCREMENT updates...'']
          @ map (\<lambda>entry. Logged (''>>> '' @ alter_query (fst entry) (snd entry) @ '';''))
              (order (snd (collect_schemas_map db (Split (schemaList f)) Map.empty)))
          @ [Logged ''# AUTO_INCREMENT update process finished.'', Closed])"
proof -
  have "executed (main_dryrun sql_Open order f) = []"
    using assms
    by (simp add: main_dryrun_def Let_def split_beta executed_append collect_schemas_map_executed
        executed_update_all split: sum.splits)
  moreover have "sql_Open (dsn_of f) = Inr db \<longrightarrow>
        main_dryrun sql_Open order f =
          [Logged (''# Target Schemas: '' @ fmt_v (Split (schemaList f))), Opened (dsn_of f),
           Logged ''# Database connection successful.'']
          @ fst (collect_schemas_map db (Split (schemaList f)) Map.empty)
          @ [Logged ''# Finished collecting max row IDs.'',
             Logged ''# Starting AUTO_INCREMENT updates...'']
          @ map (\<lambda>entry. Logged (''>>> '' @ alter_query (fst entry) (snd entry) @ '';''))
              (order (snd (collect_schemas_map db (Split (schemaList f)) Map.empty)))
          @ [Logged ''# AUTO_INCREMENT update process finished.'', Closed]"
    using assms
    by (simp add: main_dryrun_def Let_def split_beta update_all_dry)
  ultimately show ?thesis
    by (simp add: update_all_dry executed_update_all)
qed

theorem dry_run_executes_nothing_witness:
  "dryRun shop_flags
   \<and> main_dryrun (\<lambda>dsn. Inr shop_db) (\<lambda>ids. [(mkTableID ''shop'' ''orders'', 50)]) shop_flags =
      [Logged ''# Target Schemas: [shop]'', Opened ''root:@tcp(127.0.0.1:4000)/'',
       Logged ''# Database connection successful.'',
       Logged ''# Processing schema: shop'',
       Queried ''SHOW TABLES FROM `shop`'',
       Queried ''SELECT coalesce(max(_tidb_rowid), 0) FROM `shop`.`orders`'',
       Queried ''SELECT coalesce(max(_tidb_rowid), 0) FROM `shop`.`users`'',
       Queried ''SELECT coalesce(max(_tidb_rowid), 0) FROM `shop`.`logs`'',
       Logged ''# Finished collecting max row IDs.'',
       Logged ''# Starting AUTO_INCREMENT updates...'',
       Logged ''>>> ALTER TABLE `shop`.`orders` AUTO_INCREMENT = 51;'',
       Logged ''# AUTO_INCREMENT update process finished.'', Closed]
   \<and> range_order (snd (collect_schemas_map shop_db [''shop''] Map.empty))
        [(mkTableID ''shop'' ''orders'', 50)]"
  using dry_run_executes_nothing
    [of shop_flags "\<lambda>dsn. Inr shop_db" "\<lambda>ids. [(mkTableID ''shop'' ''orders'', 50)]" shop_db "[]"]
  by (simp add: shop_flags_def dsn_of_def fmt_v_def shop_tables shop_max max_rowid_query_def
      alter_query_def mkTableID_def range_order_def show_d)

text \<open>
  C7. A schema whose table enumeration fails contributes its three trace lines (the
  processing line, the query and the error line) and nothing else: the trace and the facts of
  the schemas before and after it are those of the run without it, in the slice variant and
  in the map variant. More generally the result of a list of schemas is the concatenation
  of the results of its parts, and in the action phase the trace of a list of tables is the
  concatenation of the traces of the single tables: an error acting on one table adds its
  own log line and changes nothing for another table. (A statement is answered from its
  text alone.)
\<close>

theorem failures_stay_local:
  assumes "snd (getTablesInSchema db x) = Inl err"
  shows "collect_schemas db (xs @ x # ys) [] =
           (fst (collect_schemas db xs [])
              @ [Logged (''# Processing schema: '' @ x), Queried (show_tables_query x),
                 Logged (skip_schema_line x err)]
              @ fst (collect_schemas db ys []),
            snd (collect_schemas db xs []) @ snd (collect_schemas db ys []))
    \<and> collect_schemas db (xs @ ys) [] =
           (fst (collect_schemas db xs []) @ fst (collect_schemas db ys []),
            snd (collect_schemas db xs []) @ snd (collect_schemas db ys []))
    \<and> snd (collect_schemas_map db (xs @ x # ys) ids) = snd (collect_schemas_map db (xs @ ys) ids)
    \<and> execute_all m db (ts @ t # us) =
           execute_all m db ts @ execute_one m db t @ execute_all m db us
    \<and> update_all db dry (es @ e # fs) =
           update_all db dry es @ update_one db dry e @ update_all db dry fs"
proof -
  have 1: "collect_schemas db (x # ys) [] =
      ([Logged (''# Processing schema: '' @ x), Queried (show_tables_query x),
        Logged (skip_schema_line x err)] @ fst (collect_schemas db ys []),
       snd (collect_schemas db ys []))"
    using collect_schemas_append [of db "[x]" ys "[]"] collect_schemas_failed [OF assms]
    by simp
  have 2: "collect_schemas_map db (x # ys) m' =
      ([Logged (''# Processing schema: '' @ x), Queried (show_tables_query x),
        Logged (skip_schema_line x err)] @ fst (collect_schemas_map db ys m'),
       snd (collect_schemas_map db ys m'))" for m'
    using collect_schemas_map_append [of db "[x]" ys m'] collect_schemas_map_failed [OF assms, of m']
    by simp
  show ?thesis
    using 1 2 collect_schemas_append [of db xs "x # ys" "[]"] collect_schemas_append [of db xs ys "[]"]
      collect_schemas_map_append [of db xs "x # ys" ids] collect_schemas_map_append [of db xs ys ids]
      execute_all_append [of m db ts "t # us"] update_all_append [of db dry es "e # fs"]
    by simp
qed

theorem failures_stay_local_witness:
  "snd (getTablesInSchema shop_db ''nosuch'') =
     Inl (Wrapped (''querying tables for schema '' @ sq @ ''nosuch'' @ sq @ '': '')
            (MySQLError 1049 ''Error 1049 (42000): Unknown database''))
   \<and> collect_schemas shop_db [''nosuch'', ''shop''] [] =
       ([Logged ''# Processing schema: nosuch'', Queried ''SHOW TABLES FROM `nosuch`'',
         Logged (''! Error getting tables for schema nosuch: querying tables for schema '' @ sq
           @ ''nosuch'' @ sq @ '': Error 1049 (42000): Unknown database. Skipping schema.'')]
        @ fst (collect_schemas shop_db [''shop''] []),
        [mkTableInfo ''shop'' ''orders'' 51])"
  using failures_stay_local [of shop_db "''nosuch''"
      "Wrapped (''querying tables for schema '' @ sq @ ''nosuch'' @ sq @ '': '')
         (MySQLError 1049 ''Error 1049 (42000): Unknown database'')" "[]" "[''shop'']"
      Map.empty modeRebase "[]" "mkTableInfo ''shop'' ''orders'' 51" "[]" True "[]"
      "(mkTableID ''shop'' ''orders'', 50)" "[]"]
  by (simp add: shop_unknown shop_tables shop_max skip_schema_line_def show_tables_query_def sq_def)



end
